theory Spec2Isabelle
  imports Main "HOL-Library.Word"
begin

section \<open>JavaScript values the persistence layer handles\<close>

text \<open>
  Identifiers, paths, keys and SQL text values are compared only for equality and cut at
  fixed ASCII characters, so they are HOL strings. File contents given as text are
  sequences of UTF-16 code units, because their encoded size is stored (see
  \<open>TextEncoder_encode\<close> below).
\<close>

subsection \<open>Numbers printed in decimal\<close>

definition digit_char :: "nat \<Rightarrow> char" where
  "digit_char d = ''0123456789'' ! d"

fun decimal :: "nat \<Rightarrow> string" where
  "decimal n = (if n < 10 then [digit_char n] else decimal (n div 10) @ [digit_char (n mod 10)])"

declare decimal.simps [simp del]

definition digit_value :: "char \<Rightarrow> nat" where
  "digit_value c = of_char c - 48"

definition is_digit :: "char \<Rightarrow> bool" where
  "is_digit c = (48 \<le> (of_char c :: nat) \<and> (of_char c :: nat) \<le> 57)"

definition digits_value :: "string \<Rightarrow> nat" where
  "digits_value s = foldl (\<lambda>acc c. 10 * acc + digit_value c) 0 s"

subsection \<open>Integers held in a JavaScript number\<close>

text \<open>
  A JavaScript number is an IEEE-754 double. The code only ever holds integers in one
  (the result of \<open>MAX(CAST(id AS INTEGER))\<close>, a signed 64-bit integer, and that plus
  one), so a number is modelled by the integer it denotes, and the two places where a
  double differs from an integer are written out: \<open>to_Number\<close> rounds an integer to the
  nearest double (ties to the even significand, 53 bits), and \<open>Number_toString\<close> prints
  the shortest decimal that reads back as the same double.
\<close>

definition binary_exponent :: "nat \<Rightarrow> nat" where
  "binary_exponent a =
     length (filter (\<lambda>k. 2 ^ k \<le> a) [53, 54, 55, 56, 57, 58, 59, 60, 61, 62, 63, 64])"

definition round_half_even :: "nat \<Rightarrow> nat \<Rightarrow> nat" where
  "round_half_even a e =
     (let q = a div 2 ^ e; r = a mod 2 ^ e; h = 2 ^ (e - 1)
      in (if h < r \<or> (r = h \<and> odd q) then q + 1 else q) * 2 ^ e)"

definition to_double :: "nat \<Rightarrow> nat" where
  "to_double a = (if a < 2 ^ 53 then a else round_half_even a (binary_exponent a))"

definition to_Number :: "int \<Rightarrow> int" where
  "to_Number i = (if i < 0 then - int (to_double (nat (- i))) else int (to_double (nat i)))"

fun strip_zeros :: "nat \<Rightarrow> nat" where
  "strip_zeros n = (if n = 0 then 0 else if n mod 10 = 0 then strip_zeros (n div 10) else n)"

declare strip_zeros.simps [simp del]

definition significant_digits :: "nat \<Rightarrow> nat" where
  "significant_digits v = length (decimal (strip_zeros v))"

definition distance :: "nat \<Rightarrow> nat \<Rightarrow> nat" where
  "distance v x = (if v \<le> x then x - v else v - x)"

definition better_digits :: "nat \<Rightarrow> nat \<Rightarrow> nat \<Rightarrow> bool" where
  "better_digits x v u =
     (significant_digits v < significant_digits u \<or>
      (significant_digits v = significant_digits u \<and>
        (distance v x < distance u x \<or>
         (distance v x = distance u x \<and> even (strip_zeros v) \<and> odd (strip_zeros u)))))"

definition shortest_decimal :: "nat \<Rightarrow> nat" where
  "shortest_decimal x =
     (if x \<le> 2 ^ 53 then x
      else let u = 2 ^ binary_exponent x;
               candidates = filter (\<lambda>v. to_double v = x) [x - u ..< x + u + 1]
           in foldl (\<lambda>best v. if better_digits x v best then v else best) x candidates)"

definition Number_toString :: "int \<Rightarrow> string" where
  "Number_toString d =
     (if d < 0 then CHR ''-'' # decimal (shortest_decimal (nat (- d)))
      else decimal (shortest_decimal (nat d)))"

subsection \<open>JSON\<close>

text \<open>
  A TEXT column written by \<open>JSON.stringify\<close> is represented by the JSON document it
  spells (\<open>json\<close>); \<open>JSON.parse\<close> reads such a document back into a value. Values
  (\<open>jsval\<close>) include what JSON has no notation for: \<open>undefined\<close>, dates and non-finite
  numbers. Finite numbers are integers here; objects are association lists in property
  order (the keys of an object that comes from JavaScript are distinct).
\<close>

datatype json =
    JsonNull
  | JsonBool bool
  | JsonNumber int
  | JsonString string
  | JsonArray "json list"
  | JsonObject "(string \<times> json) list"

datatype js_number = Finite int | NaN | PosInfinity | NegInfinity

datatype jsval =
    JUndefined
  | JNull
  | JBool bool
  | JNumber js_number
  | JString string
  | JDate "string option"
  | JArray "jsval list"
  | JObject "(string \<times> jsval) list"

text \<open>
  \<open>JSON.stringify\<close>: \<open>undefined\<close> has no serialisation (\<open>None\<close>); inside an array
  it becomes \<open>null\<close>, inside an object the property is left out. A date is written as
  the string its \<open>toJSON\<close> returns (\<open>JDate None\<close> is an invalid date, written \<open>null\<close>);
  a non-finite number is written \<open>null\<close>.
\<close>

fun JSON_stringify :: "jsval \<Rightarrow> json option" where
  "JSON_stringify JUndefined = None"
| "JSON_stringify JNull = Some JsonNull"
| "JSON_stringify (JBool b) = Some (JsonBool b)"
| "JSON_stringify (JNumber n) = Some (case n of Finite i \<Rightarrow> JsonNumber i | _ \<Rightarrow> JsonNull)"
| "JSON_stringify (JString s) = Some (JsonString s)"
| "JSON_stringify (JDate d) = Some (case d of Some s \<Rightarrow> JsonString s | None \<Rightarrow> JsonNull)"
| "JSON_stringify (JArray xs) =
     Some (JsonArray (map (\<lambda>x. case JSON_stringify x of None \<Rightarrow> JsonNull | Some j \<Rightarrow> j) xs))"
| "JSON_stringify (JObject kvs) =
     Some (JsonObject (concat (map (\<lambda>(k, v). case JSON_stringify v of None \<Rightarrow> [] | Some j \<Rightarrow> [(k, j)]) kvs)))"

fun JSON_parse :: "json \<Rightarrow> jsval" where
  "JSON_parse JsonNull = JNull"
| "JSON_parse (JsonBool b) = JBool b"
| "JSON_parse (JsonNumber i) = JNumber (Finite i)"
| "JSON_parse (JsonString s) = JString s"
| "JSON_parse (JsonArray js) = JArray (map JSON_parse js)"
| "JSON_parse (JsonObject kvs) = JObject (map (\<lambda>(k, j). (k, JSON_parse j)) kvs)"

text \<open>The test \<open>v ? a : b\<close> on a value.\<close>

fun truthy :: "jsval \<Rightarrow> bool" where
  "truthy JUndefined = False"
| "truthy JNull = False"
| "truthy (JBool b) = b"
| "truthy (JNumber n) = (case n of Finite i \<Rightarrow> i \<noteq> 0 | NaN \<Rightarrow> False | _ \<Rightarrow> True)"
| "truthy (JString s) = (s \<noteq> [])"
| "truthy _ = True"

section \<open>The backing services\<close>

datatype error =
    Error string
  | TypeError string
  | BackendError nat
  | ConstraintError string

type_synonym 'a result = "error + 'a"

record chat_row =
  chat_id :: string
  urlId :: "string option"
  messages :: json
  description :: "string option"
  timestamp :: string
  metadata :: "json option"

record file_row =
  file_id :: string
  file_chatId :: "string option"
  file_path :: string
  file_contentType :: "string option"
  file_size :: nat
  file_timestamp :: string
  file_metadata :: "json option"

record r2_object =
  body :: "8 word list"
  customMetadata :: "(string \<times> string option) list"

datatype backend_call =
    R2_put string
  | R2_get string
  | R2_head string
  | R2_delete string
  | R2_list string nat
  | D1_chats_upsert string
  | D1_chats_select_by_id string
  | D1_chats_select_by_urlId string
  | D1_chats_select_max_id
  | D1_chats_select_urlIds
  | D1_files_insert string
  | D1_files_delete string
  | D1_files_select_by_id string

text \<open>
  The world outside the code: the R2 bucket, the D1 tables \<open>chats\<close> and \<open>files\<close>, the
  failures the services are going to have (\<open>faults\<close>: one entry for each call still to
  come, \<open>Some n\<close> when that call throws; no entry left means no more failures), and the
  record of the calls made so far with what each one threw (\<open>log\<close>).
\<close>

record world =
  bucket :: "(string \<times> r2_object) list"
  chats :: "chat_row list"
  files :: "file_row list"
  faults :: "nat option list"
  log :: "(backend_call \<times> error option) list"

type_synonym 'a io = "world \<Rightarrow> 'a result \<times> world"

text \<open>
  One call to a service. A call that throws leaves the stored data as it was; every call
  is logged with its outcome. \<open>sem\<close> is what the service does when it is reachable; it
  can reject the request itself (an SQL constraint).
\<close>

definition backend :: "backend_call \<Rightarrow> (world \<Rightarrow> error + ('a \<times> world)) \<Rightarrow> 'a io" where
  "backend c sem w =
     (let w1 = w\<lparr>faults := tl (faults w)\<rparr>
      in case (case faults w of Some n # _ \<Rightarrow> Inl (BackendError n) | _ \<Rightarrow> sem w1) of
           Inl e \<Rightarrow> (Inl e, w1\<lparr>log := log w1 @ [(c, Some e)]\<rparr>)
         | Inr (x, w2) \<Rightarrow> (Inr x, w2\<lparr>log := log w2 @ [(c, None)]\<rparr>))"

text \<open>\<open>await m\<close> followed by the rest of an async function: a rejection is thrown on.\<close>

definition await :: "'a io \<Rightarrow> ('a \<Rightarrow> 'b io) \<Rightarrow> 'b io" where
  "await m f w = (case m w of (Inl e, w') \<Rightarrow> (Inl e, w') | (Inr x, w') \<Rightarrow> f x w')"

definition return :: "'a \<Rightarrow> 'a io" where
  "return x w = (Inr x, w)"

definition throw :: "error \<Rightarrow> 'a io" where
  "throw e w = (Inl e, w)"


text \<open>
  Every function of the modules below has the shape
  \<open>try { ... } catch (error) { logger.error(...); throw error; }\<close>; such a handler
  passes the error on unchanged and is not written out. The one handler that does
  something else, in \<open>fileExists\<close>, is.
\<close>

text \<open>The next call to a service is going to throw.\<close>

definition next_call_fails :: "world \<Rightarrow> bool" where
  "next_call_fails w = (case faults w of Some n # _ \<Rightarrow> True | _ \<Rightarrow> False)"


section \<open>The relational store: \<open>cloudflare-db.ts\<close>\<close>

subsection \<open>What the SQL statements do\<close>

text \<open>\<open>COALESCE(?, column)\<close>: the bound value unless it is NULL.\<close>

definition COALESCE :: "'a option \<Rightarrow> 'a option \<Rightarrow> 'a option" where
  "COALESCE a b = (case a of None \<Rightarrow> b | Some x \<Rightarrow> Some x)"

text \<open>
  \<open>urlId TEXT UNIQUE\<close>: a row other than the one with primary key \<open>i\<close> already holds
  the urlId. NULL never conflicts.
\<close>

definition urlId_taken :: "string option \<Rightarrow> string \<Rightarrow> chat_row list \<Rightarrow> bool" where
  "urlId_taken u i rows =
     (case u of None \<Rightarrow> False
      | Some v \<Rightarrow> list_ex (\<lambda>r. chat_id r \<noteq> i \<and> urlId r = Some v) rows)"

text \<open>
  \<open>INSERT INTO chats ... ON CONFLICT (id) DO UPDATE SET messages = ?,
  urlId = COALESCE(?, urlId), description = COALESCE(?, description), timestamp = ?,
  metadata = COALESCE(?, metadata)\<close>. The conflict clause covers the primary key only; a
  urlId held by another row fails the statement.
\<close>

definition chats_conflict_update :: "chat_row \<Rightarrow> chat_row \<Rightarrow> chat_row" where
  "chats_conflict_update new r =
     r\<lparr>messages := messages new,
       urlId := COALESCE (urlId new) (urlId r),
       description := COALESCE (description new) (description r),
       timestamp := timestamp new,
       metadata := COALESCE (metadata new) (metadata r)\<rparr>"

definition chats_upsert :: "chat_row \<Rightarrow> chat_row list \<Rightarrow> error + chat_row list" where
  "chats_upsert new rows =
     (if urlId_taken (urlId new) (chat_id new) rows
      then Inl (ConstraintError ''UNIQUE constraint failed: chats.urlId'')
      else if list_ex (\<lambda>r. chat_id r = chat_id new) rows
      then Inr (map (\<lambda>r. if chat_id r = chat_id new then chats_conflict_update new r else r) rows)
      else Inr (rows @ [new]))"

text \<open>
  \<open>CAST(id AS INTEGER)\<close> on a text value: leading white space is skipped, then the
  longest prefix that reads as a decimal integer (with an optional sign) is taken, 0 when
  there is none; a value outside the signed 64-bit range becomes the nearest bound.
\<close>

definition is_space :: "char \<Rightarrow> bool" where
  "is_space c = (of_char c \<in> {32, 9, 10, 11, 12, 13 :: nat})"

definition int64_clamp :: "int \<Rightarrow> int" where
  "int64_clamp i = max (- (2 ^ 63)) (min (2 ^ 63 - 1) i)"

definition sqlite_cast_integer :: "string \<Rightarrow> int" where
  "sqlite_cast_integer s =
     (case dropWhile is_space s of
        [] \<Rightarrow> 0
      | c # r \<Rightarrow>
          if c = CHR ''-'' then int64_clamp (- int (digits_value (takeWhile is_digit r)))
          else if c = CHR ''+'' then int64_clamp (int (digits_value (takeWhile is_digit r)))
          else int64_clamp (int (digits_value (takeWhile is_digit (c # r)))))"

text \<open>\<open>SELECT MAX(CAST(id AS INTEGER)) as maxId FROM chats\<close>: NULL on an empty table.\<close>

definition select_max_id :: "chat_row list \<Rightarrow> int option" where
  "select_max_id rows =
     (case rows of
        [] \<Rightarrow> None
      | r # rs \<Rightarrow> Some (fold max (map (\<lambda>x. sqlite_cast_integer (chat_id x)) rs)
                         (sqlite_cast_integer (chat_id r))))"

text \<open>\<open>SELECT urlId FROM chats WHERE urlId IS NOT NULL\<close>.\<close>

definition select_urlIds :: "chat_row list \<Rightarrow> string list" where
  "select_urlIds rows = concat (map (\<lambda>r. case urlId r of None \<Rightarrow> [] | Some u \<Rightarrow> [u]) rows)"

subsection \<open>The functions of the module\<close>

record ChatHistoryItem =
  item_id :: string
  item_urlId :: "string option"
  item_messages :: jsval
  item_description :: "string option"
  item_timestamp :: string
  item_metadata :: jsval

definition row_to_item :: "chat_row \<Rightarrow> ChatHistoryItem" where
  "row_to_item row =
     \<lparr>item_id = chat_id row,
      item_urlId = urlId row,
      item_messages = JSON_parse (messages row),
      item_description = description row,
      item_timestamp = timestamp row,
      item_metadata = (case metadata row of None \<Rightarrow> JUndefined | Some m \<Rightarrow> JSON_parse m)\<rparr>"

text \<open>
  \<open>setMessages\<close>. \<open>isNaN_Date_parse t\<close> stands for \<open>isNaN(Date.parse(t))\<close> and \<open>now\<close>
  for \<open>new Date().toISOString()\<close>, both given by the platform. An optional argument is
  \<open>None\<close> when the caller passes \<open>null\<close> or leaves it out.
\<close>

definition setMessages ::
  "(string \<Rightarrow> bool) \<Rightarrow> string \<Rightarrow> string \<Rightarrow> jsval \<Rightarrow> string option \<Rightarrow> string option \<Rightarrow>
   string option \<Rightarrow> jsval \<Rightarrow> unit io" where
  "setMessages isNaN_Date_parse now i msgs u d ts md =
     (if (case ts of None \<Rightarrow> False | Some t \<Rightarrow> t \<noteq> [] \<and> isNaN_Date_parse t)
      then throw (Error ''Invalid timestamp'')
      else
        let finalTimestamp = (case ts of None \<Rightarrow> now | Some t \<Rightarrow> t);
            metadataStr = (if truthy md then JSON_stringify md else None)
        in case JSON_stringify msgs of
             None \<Rightarrow> throw (TypeError ''D1_TYPE_ERROR'')
           | Some messagesStr \<Rightarrow>
               backend (D1_chats_upsert i)
                 (\<lambda>w. case chats_upsert
                              \<lparr>chat_id = i, urlId = u, messages = messagesStr, description = d,
                               timestamp = finalTimestamp, metadata = metadataStr\<rparr> (chats w) of
                         Inl e \<Rightarrow> Inl e
                       | Inr rows \<Rightarrow> Inr ((), w\<lparr>chats := rows\<rparr>)))"

definition getMessagesById :: "string \<Rightarrow> ChatHistoryItem option io" where
  "getMessagesById i =
     await (backend (D1_chats_select_by_id i) (\<lambda>w. Inr (filter (\<lambda>r. chat_id r = i) (chats w), w)))
       (\<lambda>results. case results of [] \<Rightarrow> return None | row # _ \<Rightarrow> return (Some (row_to_item row)))"

definition getMessagesByUrlId :: "string \<Rightarrow> ChatHistoryItem option io" where
  "getMessagesByUrlId u =
     await (backend (D1_chats_select_by_urlId u)
              (\<lambda>w. Inr (filter (\<lambda>r. urlId r = Some u) (chats w), w)))
       (\<lambda>results. case results of [] \<Rightarrow> return None | row # _ \<Rightarrow> return (Some (row_to_item row)))"

definition getMessages :: "string \<Rightarrow> ChatHistoryItem option io" where
  "getMessages i =
     await (getMessagesById i)
       (\<lambda>byId. case byId of Some c \<Rightarrow> return (Some c) | None \<Rightarrow> getMessagesByUrlId i)"

definition getNextId :: "string io" where
  "getNextId =
     await (backend D1_chats_select_max_id (\<lambda>w. Inr (select_max_id (chats w), w)))
       (\<lambda>maxId.
          let highestId = (case maxId of None \<Rightarrow> 0
                           | Some m \<Rightarrow> if to_Number m = 0 then 0 else to_Number m)
          in return (Number_toString (to_Number (highestId + 1))))"

definition getUrlIds :: "string list io" where
  "getUrlIds = backend D1_chats_select_urlIds (\<lambda>w. Inr (select_urlIds (chats w), w))"

text \<open>
  The loop of \<open>getUrlId\<close>: \<open>let i = 2; while (idList.includes(`${id}-${i}`)) i++\<close>.
  The counter never exceeds the length of the list plus two (\<open>getUrlId_loop_bound\<close>
  below), far inside the range where a number is an exact integer and prints as its
  decimal digits, so it is a natural number here.
\<close>

lemma digit_value_digit_char: "d < 10 \<Longrightarrow> digit_value (digit_char d) = d"
proof -
  assume "d < 10"
  then have "d = 0 \<or> d = 1 \<or> d = 2 \<or> d = 3 \<or> d = 4 \<or> d = 5 \<or> d = 6 \<or> d = 7 \<or> d = 8 \<or> d = 9"
    by arith
  then show ?thesis
    by (elim disjE) (simp_all add: digit_char_def digit_value_def)
qed

lemma digits_value_decimal: "digits_value (decimal n) = n"
proof (induction n rule: decimal.induct)
  case (1 n)
  show ?case
  proof (cases "n < 10")
    case True
    then show ?thesis
      by (subst decimal.simps) (simp add: digits_value_def digit_value_digit_char)
  next
    case False
    with 1 have ih: "digits_value (decimal (n div 10)) = n div 10"
      by simp
    have "digits_value (decimal n) =
          10 * digits_value (decimal (n div 10)) + digit_value (digit_char (n mod 10))"
      using False by (subst decimal.simps) (simp add: digits_value_def)
    then show ?thesis
      using ih by (simp add: digit_value_digit_char)
  qed
qed

lemma decimal_inj: "decimal m = decimal n \<Longrightarrow> m = n"
  by (metis digits_value_decimal)

lemma suffixed_inj: "ident @ ''-'' @ decimal m = ident @ ''-'' @ decimal n \<Longrightarrow> m = n"
  by (simp add: decimal_inj)

lemma finite_suffixes: "finite {j. ident @ ''-'' @ decimal j \<in> set idList}"
proof -
  have "inj (\<lambda>j. ident @ ''-'' @ decimal j)"
    by (rule injI) (rule suffixed_inj)
  then have "finite ((\<lambda>j. ident @ ''-'' @ decimal j) -` set idList)"
    by (intro finite_vimageI) simp_all
  then show ?thesis
    by (simp add: vimage_def)
qed

function getUrlId_loop :: "string list \<Rightarrow> string \<Rightarrow> nat \<Rightarrow> nat" where
  "getUrlId_loop idList ident i =
     (if ident @ ''-'' @ decimal i \<in> set idList then getUrlId_loop idList ident (Suc i) else i)"
  by pat_completeness auto

termination
proof (relation "measure (\<lambda>(idList, ident, i).
                   card {j. i \<le> j \<and> ident @ ''-'' @ decimal j \<in> set idList})")
  show "wf (measure (\<lambda>(idList, ident, i).
              card {j. i \<le> j \<and> ident @ ''-'' @ decimal j \<in> set idList}))"
    by simp
next
  fix idList :: "string list" and ident :: string and i :: nat
  assume taken: "ident @ ''-'' @ decimal i \<in> set idList"
  let ?S = "\<lambda>k. {j. k \<le> j \<and> ident @ ''-'' @ decimal j \<in> set idList}"
  have fin: "finite (?S i)"
    by (rule finite_subset [OF _ finite_suffixes [of ident idList]]) auto
  have "i \<in> ?S i" and "i \<notin> ?S (Suc i)" and "?S (Suc i) \<subseteq> ?S i"
    using taken by auto
  then have "?S (Suc i) \<subset> ?S i"
    by blast
  then have "card (?S (Suc i)) < card (?S i)"
    using fin by (rule psubset_card_mono [rotated])
  then show "((idList, ident, Suc i), (idList, ident, i)) \<in>
             measure (\<lambda>(idList, ident, i).
               card {j. i \<le> j \<and> ident @ ''-'' @ decimal j \<in> set idList})"
    by simp
qed

declare getUrlId_loop.simps [simp del]

definition getUrlId :: "string \<Rightarrow> string io" where
  "getUrlId ident =
     await getUrlIds
       (\<lambda>idList.
          if ident \<notin> set idList then return ident
          else return (ident @ ''-'' @ decimal (getUrlId_loop idList ident 2)))"

definition createChatFromMessages ::
  "(string \<Rightarrow> bool) \<Rightarrow> string \<Rightarrow> string \<Rightarrow> jsval \<Rightarrow> jsval \<Rightarrow> string io" where
  "createChatFromMessages isNaN_Date_parse now descr msgs md =
     await getNextId
       (\<lambda>i. await (getUrlId i)
          (\<lambda>u. await (setMessages isNaN_Date_parse now i msgs (Some u) (Some descr) None md)
             (\<lambda>_. return i)))"

text \<open>
  \<open>msg.id\<close>: reading a property of \<open>null\<close> or \<open>undefined\<close> throws; a value that is not
  an object, or an object without the property, gives \<open>undefined\<close>.
\<close>

fun message_id :: "jsval \<Rightarrow> error + jsval" where
  "message_id JUndefined = Inl (TypeError ''Cannot read properties of undefined'')"
| "message_id JNull = Inl (TypeError ''Cannot read properties of null'')"
| "message_id (JObject kvs) = Inr (case map_of kvs ''id'' of None \<Rightarrow> JUndefined | Some v \<Rightarrow> v)"
| "message_id _ = Inr JUndefined"

text \<open>\<open>messages.findIndex((msg) => msg.id === messageId)\<close>; \<open>None\<close> is \<open>-1\<close>.\<close>

fun findIndex_id :: "string \<Rightarrow> jsval list \<Rightarrow> error + nat option" where
  "findIndex_id messageId [] = Inr None"
| "findIndex_id messageId (msg # rest) =
     (case message_id msg of
        Inl e \<Rightarrow> Inl e
      | Inr v \<Rightarrow>
          if v = JString messageId then Inr (Some 0)
          else (case findIndex_id messageId rest of
                  Inl e \<Rightarrow> Inl e
                | Inr None \<Rightarrow> Inr None
                | Inr (Some k) \<Rightarrow> Inr (Some (Suc k))))"

definition forkChat :: "(string \<Rightarrow> bool) \<Rightarrow> string \<Rightarrow> string \<Rightarrow> string \<Rightarrow> string io" where
  "forkChat isNaN_Date_parse now chatId messageId =
     await (getMessages chatId)
       (\<lambda>chat. case chat of
          None \<Rightarrow> throw (Error ''Chat not found'')
        | Some c \<Rightarrow>
            (case item_messages c of
               JArray ms \<Rightarrow>
                 (case findIndex_id messageId ms of
                    Inl e \<Rightarrow> throw e
                  | Inr None \<Rightarrow> throw (Error ''Message not found'')
                  | Inr (Some messageIndex) \<Rightarrow>
                      createChatFromMessages isNaN_Date_parse now
                        (case item_description c of
                           None \<Rightarrow> ''Forked chat''
                         | Some d \<Rightarrow> if d \<noteq> [] then d @ '' (fork)'' else ''Forked chat'')
                        (JArray (take (messageIndex + 1) ms)) JUndefined)
             | _ \<Rightarrow> throw (TypeError ''chat.messages.findIndex is not a function'')))"

definition duplicateChat :: "(string \<Rightarrow> bool) \<Rightarrow> string \<Rightarrow> string \<Rightarrow> string io" where
  "duplicateChat isNaN_Date_parse now i =
     await (getMessages i)
       (\<lambda>chat. case chat of
          None \<Rightarrow> throw (Error ''Chat not found'')
        | Some c \<Rightarrow>
            createChatFromMessages isNaN_Date_parse now
              (case item_description c of
                 None \<Rightarrow> ''Duplicated chat''
               | Some d \<Rightarrow> if d \<noteq> [] then d @ '' (copy)'' else ''Duplicated chat'')
              (item_messages c) (item_metadata c))"

section \<open>The object store: \<open>cloudflare-storage.ts\<close>\<close>

subsection \<open>Keys\<close>

text \<open>\<open>s.replace(/\/+/g, '/')\<close>: every run of slashes becomes one slash.\<close>

fun collapse_slashes :: "string \<Rightarrow> string" where
  "collapse_slashes (a # b # cs) =
     (if a = CHR ''/'' \<and> b = CHR ''/'' then collapse_slashes (b # cs)
      else a # collapse_slashes (b # cs))"
| "collapse_slashes cs = cs"

definition startsWith :: "string \<Rightarrow> string \<Rightarrow> bool" where
  "startsWith s p = (take (length p) s = p)"

text \<open>\<open>s.replace(p, '')\<close> with a string pattern: the first occurrence of \<open>p\<close> is removed.\<close>

fun replace_first :: "string \<Rightarrow> string \<Rightarrow> string" where
  "replace_first [] p = []"
| "replace_first (c # cs) p =
     (if startsWith (c # cs) p then drop (length p) (c # cs) else c # replace_first cs p)"

record CloudflareStorage =
  prefix :: string

definition getFullKey :: "CloudflareStorage \<Rightarrow> string \<Rightarrow> string" where
  "getFullKey this key =
     (if prefix this \<noteq> [] then collapse_slashes (prefix this @ ''/'' @ key) else key)"

subsection \<open>File contents\<close>

text \<open>\<open>string | ArrayBuffer | Uint8Array\<close>; a string is a sequence of UTF-16 code units.\<close>

datatype file_data =
    Text "16 word list"
  | ArrayBuffer "8 word list"
  | Uint8Array "8 word list"

definition utf8_code_point :: "nat \<Rightarrow> 8 word list" where
  "utf8_code_point c =
     (if c < 0x80 then [of_nat c]
      else if c < 0x800 then [of_nat (0xC0 + c div 64), of_nat (0x80 + c mod 64)]
      else if c < 0x10000 then
        [of_nat (0xE0 + c div 4096), of_nat (0x80 + c div 64 mod 64), of_nat (0x80 + c mod 64)]
      else
        [of_nat (0xF0 + c div 262144), of_nat (0x80 + c div 4096 mod 64),
         of_nat (0x80 + c div 64 mod 64), of_nat (0x80 + c mod 64)])"

definition high_surrogate :: "16 word \<Rightarrow> bool" where
  "high_surrogate u = (0xD800 \<le> unat u \<and> unat u \<le> 0xDBFF)"

definition low_surrogate :: "16 word \<Rightarrow> bool" where
  "low_surrogate u = (0xDC00 \<le> unat u \<and> unat u \<le> 0xDFFF)"

text \<open>
  \<open>new TextEncoder().encode(s)\<close>: UTF-8, a surrogate pair encoded as one code point and
  a surrogate without its partner as U+FFFD.
\<close>

fun TextEncoder_encode :: "16 word list \<Rightarrow> 8 word list" where
  "TextEncoder_encode [] = []"
| "TextEncoder_encode [u] =
     (if high_surrogate u \<or> low_surrogate u then utf8_code_point 0xFFFD
      else utf8_code_point (unat u))"
| "TextEncoder_encode (u # v # rest) =
     (if high_surrogate u \<and> low_surrogate v
      then utf8_code_point (0x10000 + (unat u - 0xD800) * 0x400 + (unat v - 0xDC00))
             @ TextEncoder_encode rest
      else if high_surrogate u \<or> low_surrogate u
      then utf8_code_point 0xFFFD @ TextEncoder_encode (v # rest)
      else utf8_code_point (unat u) @ TextEncoder_encode (v # rest))"

text \<open>The bytes R2 stores for a body: a string is stored in UTF-8.\<close>

definition body_bytes :: "file_data \<Rightarrow> 8 word list" where
  "body_bytes d = (case d of Text s \<Rightarrow> TextEncoder_encode s | ArrayBuffer b \<Rightarrow> b | Uint8Array b \<Rightarrow> b)"

subsection \<open>What the bucket does\<close>

text \<open>Setting a key of an association list: in place when the key is there, at the end otherwise.\<close>

definition assoc_set :: "'k \<Rightarrow> 'v \<Rightarrow> ('k \<times> 'v) list \<Rightarrow> ('k \<times> 'v) list" where
  "assoc_set k v kvs =
     (if list_ex (\<lambda>(k', v'). k' = k) kvs
      then map (\<lambda>(k', v'). if k' = k then (k, v) else (k', v')) kvs
      else kvs @ [(k, v)])"

definition bucket_put ::
  "string \<Rightarrow> 8 word list \<Rightarrow> (string \<times> string option) list \<Rightarrow> world \<Rightarrow> error + (unit \<times> world)" where
  "bucket_put k b m w =
     Inr ((), w\<lparr>bucket := assoc_set k \<lparr>body = b, customMetadata = m\<rparr> (bucket w)\<rparr>)"

definition bucket_get :: "string \<Rightarrow> world \<Rightarrow> error + (r2_object option \<times> world)" where
  "bucket_get k w = Inr (map_of (bucket w) k, w)"

definition bucket_delete :: "string \<Rightarrow> world \<Rightarrow> error + (unit \<times> world)" where
  "bucket_delete k w = Inr ((), w\<lparr>bucket := filter (\<lambda>(k', v). k' \<noteq> k) (bucket w)\<rparr>)"

text \<open>
  \<open>bucket.list({ prefix, limit })\<close>: at most \<open>limit\<close> of the objects whose key starts with
  the prefix. The order in which the service lists them is not modelled; the objects are
  taken in the order of the association list.
\<close>

definition bucket_list :: "string \<Rightarrow> nat \<Rightarrow> world \<Rightarrow> error + (string list \<times> world)" where
  "bucket_list p limit w =
     Inr (take limit (filter (\<lambda>k. startsWith k p) (map fst (bucket w))), w)"

subsection \<open>The methods of \<open>CloudflareStorage\<close>\<close>

definition Storage_storeFile ::
  "CloudflareStorage \<Rightarrow> string \<Rightarrow> file_data \<Rightarrow> (string \<times> string option) list option \<Rightarrow> string io" where
  "Storage_storeFile this key data md =
     (let fullKey = getFullKey this key
      in await (backend (R2_put fullKey)
                  (bucket_put fullKey (body_bytes data) (case md of None \<Rightarrow> [] | Some m \<Rightarrow> m)))
           (\<lambda>_. return fullKey))"








section \<open>The file manager: \<open>cloudflare-file-manager.ts\<close>\<close>

subsection \<open>What the SQL statements on \<open>files\<close> do\<close>

text \<open>
  \<open>INSERT INTO files ...\<close>: the primary key \<open>id\<close> must be new, and a \<open>chatId\<close> that is
  not NULL must be the id of a chat (\<open>FOREIGN KEY (chatId) REFERENCES chats(id)\<close>).
\<close>

definition files_insert :: "file_row \<Rightarrow> world \<Rightarrow> error + (unit \<times> world)" where
  "files_insert row w =
     (if list_ex (\<lambda>r. file_id r = file_id row) (files w)
      then Inl (ConstraintError ''UNIQUE constraint failed: files.id'')
      else if (case file_chatId row of None \<Rightarrow> False
               | Some c \<Rightarrow> \<not> list_ex (\<lambda>r. chat_id r = c) (chats w))
      then Inl (ConstraintError ''FOREIGN KEY constraint failed'')
      else Inr ((), w\<lparr>files := files w @ [row]\<rparr>))"

definition files_delete :: "string \<Rightarrow> world \<Rightarrow> error + (unit \<times> world)" where
  "files_delete i w = Inr ((), w\<lparr>files := filter (\<lambda>r. file_id r \<noteq> i) (files w)\<rparr>)"

definition files_select_by_id :: "string \<Rightarrow> world \<Rightarrow> error + (file_row list \<times> world)" where
  "files_select_by_id i w = Inr (filter (\<lambda>r. file_id r = i) (files w), w)"

subsection \<open>The methods of \<open>CloudflareFileManager\<close>\<close>


record CloudflareFileManager =
  storage :: CloudflareStorage

text \<open>\<open>x || null\<close> on an optional string.\<close>

definition or_null :: "string option \<Rightarrow> string option" where
  "or_null x = (case x of None \<Rightarrow> None | Some s \<Rightarrow> if s = [] then None else Some s)"

text \<open>
  \<open>storeFile\<close>. \<open>uuid\<close> stands for the value of \<open>crypto.randomUUID()\<close> and \<open>now\<close> for the
  value of \<open>new Date().toISOString()\<close> in this call. The object metadata is
  \<open>{...metadata, path, contentType, chatId}\<close>.
\<close>

definition FileManager_storeFile ::
  "CloudflareFileManager \<Rightarrow> string \<Rightarrow> string \<Rightarrow> file_data \<Rightarrow> string \<Rightarrow> string option \<Rightarrow>
   string option \<Rightarrow> (string \<times> string) list option \<Rightarrow> string io" where
  "FileManager_storeFile this uuid now fileData path chatId contentType md =
     (let i = uuid
      in await (Storage_storeFile (storage this) i fileData
                  (Some (assoc_set ''chatId'' chatId
                          (assoc_set ''contentType'' contentType
                            (assoc_set ''path'' (Some path)
                              (case md of None \<Rightarrow> [] | Some m \<Rightarrow> map (\<lambda>(k, v). (k, Some v)) m))))))
           (\<lambda>_.
              let size = (case fileData of
                            Text s \<Rightarrow> length (TextEncoder_encode s)
                          | ArrayBuffer b \<Rightarrow> length b
                          | Uint8Array b \<Rightarrow> length b);
                  timestamp = now;
                  metadataStr = (case md of None \<Rightarrow> None
                                 | Some m \<Rightarrow> Some (JsonObject (map (\<lambda>(k, v). (k, JsonString v)) m)))
              in await (backend (D1_files_insert i)
                          (files_insert
                             \<lparr>file_id = i, file_chatId = or_null chatId, file_path = path,
                              file_contentType = or_null contentType, file_size = size,
                              file_timestamp = timestamp, file_metadata = metadataStr\<rparr>))
                   (\<lambda>_. return i)))"





section \<open>Notions used in the statements, and concrete inputs\<close>

text \<open>Worlds for the concrete cases: a chat row with a given id, and a world holding given rows.\<close>

definition chat_with_id :: "string \<Rightarrow> chat_row" where
  "chat_with_id i = \<lparr>chat_id = i, urlId = Some i, messages = JsonArray [], description = None,
                     timestamp = ''2024-01-01T00:00:00.000Z'', metadata = None\<rparr>"

definition chat_with_urlId :: "string \<Rightarrow> string \<Rightarrow> chat_row" where
  "chat_with_urlId i u = (chat_with_id i)\<lparr>urlId := Some u\<rparr>"

definition world_with_chats :: "chat_row list \<Rightarrow> world" where
  "world_with_chats rows = \<lparr>bucket = [], chats = rows, files = [], faults = [], log = []\<rparr>"

text \<open>The decimal string of an integer, and the largest integer the ids of a table read as.\<close>

definition int_decimal :: "int \<Rightarrow> string" where
  "int_decimal i = (if i < 0 then CHR ''-'' # decimal (nat (- i)) else decimal (nat i))"

definition max_cast_id :: "chat_row list \<Rightarrow> int" where
  "max_cast_id rows = Max ((\<lambda>r. sqlite_cast_integer (chat_id r)) ` set rows)"

text \<open>The row an upsert leaves under its primary key, given the row that was there.\<close>

definition upserted :: "chat_row \<Rightarrow> chat_row option \<Rightarrow> chat_row" where
  "upserted new old = (case old of None \<Rightarrow> new | Some r \<Rightarrow> chats_conflict_update new r)"

text \<open>The row \<open>setMessages\<close> binds to its statement.\<close>

definition bound_row ::
  "string \<Rightarrow> string \<Rightarrow> json \<Rightarrow> string option \<Rightarrow> string option \<Rightarrow> string option \<Rightarrow> jsval \<Rightarrow> chat_row" where
  "bound_row now i j u d ts md =
     \<lparr>chat_id = i, urlId = u, messages = j, description = d,
      timestamp = (case ts of None \<Rightarrow> now | Some t \<Rightarrow> t),
      metadata = (if truthy md then JSON_stringify md else None)\<rparr>"

text \<open>Values that JSON writes and reads back unchanged.\<close>

fun json_plain :: "jsval \<Rightarrow> bool" where
  "json_plain JUndefined = False"
| "json_plain JNull = True"
| "json_plain (JBool b) = True"
| "json_plain (JNumber n) = (case n of Finite i \<Rightarrow> True | _ \<Rightarrow> False)"
| "json_plain (JString s) = True"
| "json_plain (JDate d) = False"
| "json_plain (JArray xs) = list_all json_plain xs"
| "json_plain (JObject kvs) = list_all (\<lambda>(k, v). json_plain v) kvs"

text \<open>A message sequence for the concrete cases: one message, without and with a date.\<close>

definition plain_message :: jsval where
  "plain_message = JObject [(''id'', JString ''m1''), (''role'', JString ''user''), (''content'', JString ''hi'')]"

definition dated_message :: jsval where
  "dated_message = JObject [(''id'', JString ''m1''), (''role'', JString ''user''), (''content'', JString ''hi''),
                            (''createdAt'', JDate (Some ''2024-01-01T00:00:00.000Z''))]"

text \<open>A chat with one message \<open>m1\<close> and a given description.\<close>

definition chat_described :: "string \<Rightarrow> string option \<Rightarrow> chat_row" where
  "chat_described i d =
     \<lparr>chat_id = i, urlId = Some i,
      messages = JsonArray [JsonObject [(''id'', JsonString ''m1''), (''role'', JsonString ''user''),
                                        (''content'', JsonString ''hi'')]],
      description = d, timestamp = ''2024-01-01T00:00:00.000Z'', metadata = None\<rparr>"

text \<open>What a service does to the data does not touch the log.\<close>

definition keeps_log :: "(world \<Rightarrow> error + ('a \<times> world)) \<Rightarrow> bool" where
  "keeps_log sem = (\<forall>v x v'. sem v = Inr (x, v') \<longrightarrow> log v' = log v)"

text \<open>An empty world and a file manager over a store with the empty prefix, as \<open>CloudflareContext\<close> builds it.\<close>

definition empty_world :: world where
  "empty_world = \<lparr>bucket = [], chats = [], files = [], faults = [], log = []\<rparr>"

definition root_manager :: CloudflareFileManager where
  "root_manager = \<lparr>storage = \<lparr>prefix = []\<rparr>\<rparr>"






section \<open>Properties\<close>

subsection \<open>Calls to the services\<close>

lemma backend_ok:
  "\<not> next_call_fails w \<Longrightarrow> sem (w\<lparr>faults := tl (faults w)\<rparr>) = Inr (x, w2) \<Longrightarrow>
   backend c sem w = (Inr x, w2\<lparr>log := log w2 @ [(c, None)]\<rparr>)"
  by (auto simp: backend_def next_call_fails_def Let_def split: list.splits option.splits)

lemma backend_fault:
  "faults w = Some n # fs \<Longrightarrow>
   backend c sem w = (Inl (BackendError n), w\<lparr>faults := fs, log := log w @ [(c, Some (BackendError n))]\<rparr>)"
  by (simp add: backend_def Let_def)

subsection \<open>\<open>getUrlId\<close>\<close>

lemma getUrlId_loop_spec:
  "i \<le> getUrlId_loop idList ident i \<and>
   ident @ ''-'' @ decimal (getUrlId_loop idList ident i) \<notin> set idList \<and>
   (\<forall>j. i \<le> j \<and> j < getUrlId_loop idList ident i \<longrightarrow> ident @ ''-'' @ decimal j \<in> set idList)"
proof (induction idList ident i rule: getUrlId_loop.induct)
  case (1 idList ident i)
  show ?case
  proof (cases "ident @ ''-'' @ decimal i \<in> set idList")
    case True
    let ?n = "getUrlId_loop idList ident (Suc i)"
    have eq: "getUrlId_loop idList ident i = ?n"
      using True by (subst getUrlId_loop.simps) simp
    from 1 [OF True] have ih1: "Suc i \<le> ?n"
      and ih2: "ident @ ''-'' @ decimal ?n \<notin> set idList"
      and ih3: "\<forall>j. Suc i \<le> j \<and> j < ?n \<longrightarrow> ident @ ''-'' @ decimal j \<in> set idList"
      by blast+
    have "\<forall>j. i \<le> j \<and> j < ?n \<longrightarrow> ident @ ''-'' @ decimal j \<in> set idList"
    proof (intro allI impI)
      fix j assume j: "i \<le> j \<and> j < ?n"
      show "ident @ ''-'' @ decimal j \<in> set idList"
      proof (cases "j = i")
        case True
        then show ?thesis using \<open>ident @ ''-'' @ decimal i \<in> set idList\<close> by simp
      next
        case False
        then have "Suc i \<le> j" using j by simp
        then show ?thesis using ih3 j by blast
      qed
    qed
    then show ?thesis
      using ih1 ih2 unfolding eq by simp
  next
    case False
    then have "getUrlId_loop idList ident i = i"
      by (subst getUrlId_loop.simps) simp
    then show ?thesis
      using False by auto
  qed
qed

lemma getUrlId_loop_bound: "getUrlId_loop idList ident i \<le> i + length idList"
proof -
  let ?n = "getUrlId_loop idList ident i"
  let ?f = "\<lambda>j. ident @ ''-'' @ decimal j"
  have "?f ` {i ..< ?n} \<subseteq> set idList"
    using getUrlId_loop_spec [of i idList ident] by auto
  then have "card (?f ` {i ..< ?n}) \<le> card (set idList)"
    by (intro card_mono) simp_all
  moreover have "inj_on ?f {i ..< ?n}"
    by (rule inj_onI) (rule suffixed_inj)
  then have "card (?f ` {i ..< ?n}) = ?n - i"
    by (simp add: card_image)
  moreover have "card (set idList) \<le> length idList"
    by (rule card_length)
  ultimately show ?thesis
    by simp
qed

lemma getUrlIds_ok:
  "\<not> next_call_fails w \<Longrightarrow>
   getUrlIds w = (Inr (select_urlIds (chats w)),
                  w\<lparr>faults := tl (faults w), log := log w @ [(D1_chats_select_urlIds, None)]\<rparr>)"
  by (simp add: getUrlIds_def backend_ok)

lemma getUrlId_example:
  "fst (getUrlId ''5'' (world_with_chats [chat_with_urlId ''5'' ''5'', chat_with_urlId ''6'' ''5-2'']))
     = Inr ''5-3''"
  by (simp add: world_with_chats_def chat_with_urlId_def chat_with_id_def getUrlId_def await_def
      return_def getUrlIds_def backend_def select_urlIds_def getUrlId_loop.simps decimal.simps
      digit_char_def)

text \<open>
  Claim C3. Whenever the query for the existing urlIds does not fail, \<open>getUrlId\<close> returns:
  the candidate itself when no row holds it as urlId; otherwise the candidate followed by
  \<open>-n\<close> for the smallest \<open>n \<ge> 2\<close> such that this string is not an existing urlId
  (\<open>n\<close> is at most the number of existing urlIds plus two). In both cases the result is
  not an existing urlId. For the candidate \<open>5\<close> with existing
  urlIds \<open>5\<close> and \<open>5-2\<close> the result is \<open>5-3\<close>.
\<close>

theorem getUrlId_fresh:
  assumes "\<not> next_call_fails w"
  shows "(\<exists>u w'. getUrlId ident w = (Inr u, w') \<and>
           u \<notin> set (select_urlIds (chats w)) \<and>
           (ident \<notin> set (select_urlIds (chats w)) \<longrightarrow> u = ident) \<and>
           (ident \<in> set (select_urlIds (chats w)) \<longrightarrow>
              (\<exists>n. 2 \<le> n \<and> n \<le> 2 + length (select_urlIds (chats w)) \<and>
                   u = ident @ ''-'' @ decimal n \<and>
                   (\<forall>j. 2 \<le> j \<and> j < n \<longrightarrow>
                        ident @ ''-'' @ decimal j \<in> set (select_urlIds (chats w)))))) \<and>
         fst (getUrlId ''5'' (world_with_chats [chat_with_urlId ''5'' ''5'', chat_with_urlId ''6'' ''5-2'']))
           = Inr ''5-3''"
proof (rule conjI)
  show "\<exists>u w'. getUrlId ident w = (Inr u, w') \<and>
           u \<notin> set (select_urlIds (chats w)) \<and>
           (ident \<notin> set (select_urlIds (chats w)) \<longrightarrow> u = ident) \<and>
           (ident \<in> set (select_urlIds (chats w)) \<longrightarrow>
              (\<exists>n. 2 \<le> n \<and> n \<le> 2 + length (select_urlIds (chats w)) \<and>
                   u = ident @ ''-'' @ decimal n \<and>
                   (\<forall>j. 2 \<le> j \<and> j < n \<longrightarrow>
                        ident @ ''-'' @ decimal j \<in> set (select_urlIds (chats w)))))"
  proof (cases "ident \<in> set (select_urlIds (chats w))")
    case False
    then show ?thesis
      using assms by (simp add: getUrlId_def await_def return_def getUrlIds_ok)
  next
    case True
    let ?n = "getUrlId_loop (select_urlIds (chats w)) ident 2"
    have "getUrlId ident w =
            (Inr (ident @ ''-'' @ decimal ?n),
             w\<lparr>faults := tl (faults w), log := log w @ [(D1_chats_select_urlIds, None)]\<rparr>)"
      using assms True by (simp add: getUrlId_def await_def return_def getUrlIds_ok)
    moreover note getUrlId_loop_spec [of 2 "select_urlIds (chats w)" ident]
      getUrlId_loop_bound [of "select_urlIds (chats w)" ident 2]
    ultimately show ?thesis
      using True by auto
  qed
next
  show "fst (getUrlId ''5'' (world_with_chats [chat_with_urlId ''5'' ''5'', chat_with_urlId ''6'' ''5-2'']))
           = Inr ''5-3''"
    by (rule getUrlId_example)
qed

theorem getUrlId_fresh_witness:
  "\<not> next_call_fails (world_with_chats [chat_with_urlId ''1'' ''a'', chat_with_urlId ''2'' ''a-2'']) \<and>
   fst (getUrlId ''a'' (world_with_chats [chat_with_urlId ''1'' ''a'', chat_with_urlId ''2'' ''a-2'']))
     = Inr ''a-3'' \<and>
   ''a-3'' \<notin> set (select_urlIds (chats (world_with_chats [chat_with_urlId ''1'' ''a'', chat_with_urlId ''2'' ''a-2''])))"
  using getUrlId_fresh [of "world_with_chats [chat_with_urlId ''1'' ''a'', chat_with_urlId ''2'' ''a-2'']" "''a''"]
  by (simp add: next_call_fails_def world_with_chats_def chat_with_urlId_def chat_with_id_def
      getUrlId_def await_def return_def getUrlIds_def backend_def select_urlIds_def
      getUrlId_loop.simps decimal.simps digit_char_def)

subsection \<open>\<open>getNextId\<close>\<close>

lemma select_max_id_Max:
  "rows \<noteq> [] \<Longrightarrow> select_max_id rows = Some (max_cast_id rows)"
proof (cases rows)
  case Nil
  then show "rows \<noteq> [] \<Longrightarrow> ?thesis" by simp
next
  case (Cons r rs)
  have "Max (set (sqlite_cast_integer (chat_id r) # map (\<lambda>x. sqlite_cast_integer (chat_id x)) rs)) =
        fold max (map (\<lambda>x. sqlite_cast_integer (chat_id x)) rs) (sqlite_cast_integer (chat_id r))"
    by (rule Max.set_eq_fold)
  then show ?thesis
    using Cons by (simp add: select_max_id_def max_cast_id_def)
qed

lemma to_double_exact: "a \<le> 2 ^ 53 \<Longrightarrow> to_double a = a"
proof (cases "a < 2 ^ 53")
  case True
  then show ?thesis by (simp add: to_double_def)
next
  case False
  assume "a \<le> 2 ^ 53"
  with False have "a = 2 ^ 53" by simp
  then show ?thesis
    by (simp add: to_double_def round_half_even_def binary_exponent_def Let_def)
qed

lemma to_Number_exact: "- (2 ^ 53) \<le> i \<Longrightarrow> i \<le> 2 ^ 53 \<Longrightarrow> to_Number i = i"
proof -
  assume lo: "- (2 ^ 53) \<le> i" and hi: "i \<le> 2 ^ 53"
  show ?thesis
  proof (cases "i < 0")
    case True
    have "nat (- i) \<le> 2 ^ 53"
      using lo by (simp add: nat_le_iff)
    then show ?thesis
      using True by (simp add: to_Number_def to_double_exact)
  next
    case False
    have "nat i \<le> 2 ^ 53"
      using hi by (simp add: nat_le_iff)
    then show ?thesis
      using False by (simp add: to_Number_def to_double_exact)
  qed
qed

lemma Number_toString_exact:
  "- (2 ^ 53) \<le> i \<Longrightarrow> i \<le> 2 ^ 53 \<Longrightarrow> Number_toString i = int_decimal i"
proof -
  assume lo: "- (2 ^ 53) \<le> i" and hi: "i \<le> 2 ^ 53"
  have "nat (- i) \<le> 2 ^ 53" "nat i \<le> 2 ^ 53"
    using lo hi by (simp_all add: nat_le_iff)
  then show ?thesis
    by (simp add: Number_toString_def int_decimal_def shortest_decimal_def)
qed

lemma getNextId_run:
  "\<not> next_call_fails w \<Longrightarrow>
   fst (getNextId w) =
     Inr (Number_toString (to_Number
       ((case select_max_id (chats w) of None \<Rightarrow> 0
         | Some m \<Rightarrow> if to_Number m = 0 then 0 else to_Number m) + 1)))"
  by (simp add: getNextId_def await_def return_def backend_ok Let_def)

lemma decimal_1: "decimal (Suc 0) = ''1''"
  by (subst decimal.simps) (simp add: digit_char_def)

lemma getNextId_example:
  "fst (getNextId (world_with_chats [chat_with_id ''1'', chat_with_id ''2'', chat_with_id ''7''])) = Inr ''8''"
  by (simp add: getNextId_run next_call_fails_def world_with_chats_def chat_with_id_def
      select_max_id_def sqlite_cast_integer_def is_space_def is_digit_def digits_value_def
      digit_value_def int64_clamp_def to_Number_def to_double_def Number_toString_def
      shortest_decimal_def decimal.simps digit_char_def)

text \<open>
  Claim C4, as amended. Whenever the query does not fail, \<open>getNextId\<close> returns \<open>1\<close> on an
  empty table, and otherwise, with \<open>m\<close> the largest of the integers the ids read as under
  \<open>CAST(id AS INTEGER)\<close>, the decimal string of \<open>m + 1\<close> provided
  \<open>-2\<^sup>5\<^sup>3 \<le> m < 2\<^sup>5\<^sup>3\<close>, the range in which a number holds \<open>m\<close> and \<open>m + 1\<close> exactly.
  On a table with the ids \<open>1\<close>, \<open>2\<close> and \<open>7\<close> it returns \<open>8\<close>.
\<close>

theorem getNextId_max_plus_one:
  assumes "\<not> next_call_fails w"
  shows "(chats w = [] \<longrightarrow> fst (getNextId w) = Inr ''1'') \<and>
         (chats w \<noteq> [] \<and> - (2 ^ 53) \<le> max_cast_id (chats w) \<and> max_cast_id (chats w) < 2 ^ 53 \<longrightarrow>
            fst (getNextId w) = Inr (int_decimal (max_cast_id (chats w) + 1))) \<and>
         fst (getNextId (world_with_chats [chat_with_id ''1'', chat_with_id ''2'', chat_with_id ''7'']))
           = Inr ''8''"
proof (intro conjI impI)
  assume "chats w = []"
  then have "select_max_id (chats w) = None"
    by (simp add: select_max_id_def)
  then have "fst (getNextId w) = Inr (Number_toString (to_Number 1))"
    using assms by (simp add: getNextId_run)
  also have "to_Number 1 = 1"
    by (simp add: to_Number_exact)
  also have "Number_toString 1 = ''1''"
    by (simp add: Number_toString_exact int_decimal_def decimal_1)
  finally show "fst (getNextId w) = Inr ''1''" .
next
  let ?m = "max_cast_id (chats w)"
  assume range: "chats w \<noteq> [] \<and> - (2 ^ 53) \<le> ?m \<and> ?m < 2 ^ 53"
  then have sel: "select_max_id (chats w) = Some ?m"
    by (simp add: select_max_id_Max)
  have m: "to_Number ?m = ?m"
    using range by (simp add: to_Number_exact)
  have m1: "to_Number (?m + 1) = ?m + 1"
    using range by (simp add: to_Number_exact)
  have "fst (getNextId w) = Inr (Number_toString (to_Number (?m + 1)))"
  proof (cases "?m = 0")
    case True
    then show ?thesis using assms sel m by (simp add: getNextId_run)
  next
    case False
    then show ?thesis using assms sel m by (simp add: getNextId_run)
  qed
  also have "Number_toString (to_Number (?m + 1)) = int_decimal (?m + 1)"
    using range m1 by (simp add: Number_toString_exact)
  finally show "fst (getNextId w) = Inr (int_decimal (?m + 1))" .
next
  show "fst (getNextId (world_with_chats [chat_with_id ''1'', chat_with_id ''2'', chat_with_id ''7'']))
           = Inr ''8''"
    by (rule getNextId_example)
qed

theorem getNextId_max_plus_one_witness:
  "\<not> next_call_fails (world_with_chats []) \<and>
   chats (world_with_chats []) = [] \<and>
   fst (getNextId (world_with_chats [])) = Inr ''1'' \<and>
   \<not> next_call_fails (world_with_chats [chat_with_id ''3'', chat_with_id ''12'']) \<and>
   chats (world_with_chats [chat_with_id ''3'', chat_with_id ''12'']) \<noteq> [] \<and>
   max_cast_id (chats (world_with_chats [chat_with_id ''3'', chat_with_id ''12''])) = 12 \<and>
   fst (getNextId (world_with_chats [chat_with_id ''3'', chat_with_id ''12''])) = Inr (int_decimal 13)"
  using getNextId_max_plus_one [of "world_with_chats []"]
    getNextId_max_plus_one [of "world_with_chats [chat_with_id ''3'', chat_with_id ''12'']"]
  by (simp add: next_call_fails_def world_with_chats_def chat_with_id_def max_cast_id_def
      sqlite_cast_integer_def is_space_def is_digit_def digits_value_def digit_value_def
      int64_clamp_def)

text \<open>
  The claim as stated, for every state of the table, fails: with the single id
  \<open>9007199254740992\<close> (\<open>2\<^sup>5\<^sup>3\<close>) the sum \<open>+highestId + 1\<close> rounds back to \<open>2\<^sup>5\<^sup>3\<close>, and
  \<open>getNextId\<close> returns the id that is already there.
\<close>

lemma getNextId_at_2_53:
  "fst (getNextId (world_with_chats [chat_with_id ''9007199254740992''])) = Inr ''9007199254740992''"
  by (simp add: getNextId_run next_call_fails_def world_with_chats_def chat_with_id_def
      select_max_id_def sqlite_cast_integer_def is_space_def is_digit_def digits_value_def
      digit_value_def int64_clamp_def to_Number_def to_double_def round_half_even_def
      binary_exponent_def Let_def Number_toString_def
      shortest_decimal_def decimal.simps digit_char_def)

lemma max_cast_id_at_2_53:
  "max_cast_id (chats (world_with_chats [chat_with_id ''9007199254740992''])) = 9007199254740992"
  by (simp add: max_cast_id_def world_with_chats_def chat_with_id_def sqlite_cast_integer_def
      is_space_def is_digit_def digits_value_def digit_value_def int64_clamp_def)

lemma int_decimal_2_53_1: "int_decimal 9007199254740993 = ''9007199254740993''"
  by (simp add: int_decimal_def decimal.simps digit_char_def)

theorem getNextId_counterexample:
  "\<not> (\<forall>w. \<not> next_call_fails w \<and> chats w \<noteq> [] \<longrightarrow>
          fst (getNextId w) = Inr (int_decimal (max_cast_id (chats w) + 1)))"
proof
  let ?w = "world_with_chats [chat_with_id ''9007199254740992'']"
  assume "\<forall>w. \<not> next_call_fails w \<and> chats w \<noteq> [] \<longrightarrow>
          fst (getNextId w) = Inr (int_decimal (max_cast_id (chats w) + 1))"
  moreover have "\<not> next_call_fails ?w \<and> chats ?w \<noteq> []"
    by (simp add: next_call_fails_def world_with_chats_def)
  ultimately have "fst (getNextId ?w) = Inr (int_decimal (max_cast_id (chats ?w) + 1))"
    by blast
  then have "''9007199254740992'' = int_decimal (9007199254740992 + 1)"
    by (simp only: getNextId_at_2_53 max_cast_id_at_2_53 sum.inject)
  then have "''9007199254740992'' = ''9007199254740993''"
    by (simp add: int_decimal_2_53_1)
  then show False by simp
qed

subsection \<open>\<open>setMessages\<close> and \<open>getMessages\<close>\<close>

lemma await_Inr:
  "await m f w = (Inr y, w') \<Longrightarrow> \<exists>x w1. m w = (Inr x, w1) \<and> f x w1 = (Inr y, w')"
  by (auto simp: await_def split: prod.splits sum.splits)

lemma backend_Inr:
  "backend c sem w = (Inr x, w') \<Longrightarrow>
   \<not> next_call_fails w \<and>
   (\<exists>w2. sem (w\<lparr>faults := tl (faults w)\<rparr>) = Inr (x, w2) \<and> w' = w2\<lparr>log := log w2 @ [(c, None)]\<rparr>)"
  by (auto simp: backend_def next_call_fails_def Let_def split: list.splits option.splits sum.splits)

lemma chat_id_conflict_update [simp]: "chat_id (chats_conflict_update new r) = chat_id r"
  by (simp add: chats_conflict_update_def)

lemma find_map_update:
  "find (\<lambda>r. chat_id r = i) (map (\<lambda>r. if chat_id r = i then chats_conflict_update new r else r) rows) =
   map_option (chats_conflict_update new) (find (\<lambda>r. chat_id r = i) rows)"
  by (induction rows) auto

lemma find_None_iff_list_ex: "find P xs = None \<longleftrightarrow> \<not> list_ex P xs"
  by (induction xs) auto

lemma find_append_new:
  "find P xs = None \<Longrightarrow> P x \<Longrightarrow> find P (xs @ [x]) = Some x"
  by (induction xs) (auto split: if_splits)

lemma upserted_messages [simp]: "messages (upserted new old) = messages new"
  by (simp add: upserted_def chats_conflict_update_def split: option.splits)

lemma upserted_timestamp [simp]: "timestamp (upserted new old) = timestamp new"
  by (simp add: upserted_def chats_conflict_update_def split: option.splits)

lemma upserted_urlId:
  "urlId (upserted new old) = (case urlId new of Some u \<Rightarrow> Some u | None \<Rightarrow> Option.bind old urlId)"
  by (simp add: upserted_def chats_conflict_update_def COALESCE_def split: option.splits)

lemma upserted_description:
  "description (upserted new old) =
     (case description new of Some d \<Rightarrow> Some d | None \<Rightarrow> Option.bind old description)"
  by (simp add: upserted_def chats_conflict_update_def COALESCE_def split: option.splits)

lemma upserted_metadata:
  "metadata (upserted new old) =
     (case metadata new of Some m \<Rightarrow> Some m | None \<Rightarrow> Option.bind old metadata)"
  by (simp add: upserted_def chats_conflict_update_def COALESCE_def split: option.splits)

lemma chats_upsert_row:
  assumes "chats_upsert new rows = Inr rows'"
  shows "find (\<lambda>r. chat_id r = chat_id new) rows' =
         Some (upserted new (find (\<lambda>r. chat_id r = chat_id new) rows))"
proof (cases "list_ex (\<lambda>r. chat_id r = chat_id new) rows")
  case True
  then obtain old where old: "find (\<lambda>r. chat_id r = chat_id new) rows = Some old"
    using find_None_iff_list_ex [of "\<lambda>r. chat_id r = chat_id new" rows] by auto
  from assms True have "rows' = map (\<lambda>r. if chat_id r = chat_id new then chats_conflict_update new r else r) rows"
    by (auto simp: chats_upsert_def split: if_splits)
  then show ?thesis
    using old by (simp add: find_map_update upserted_def)
next
  case False
  then have none: "find (\<lambda>r. chat_id r = chat_id new) rows = None"
    by (simp add: find_None_iff_list_ex)
  from assms False have "rows' = rows @ [new]"
    by (auto simp: chats_upsert_def split: if_splits)
  then show ?thesis
    using none by (simp add: find_append_new upserted_def)
qed

lemma setMessages_Inr:
  assumes "setMessages P now i msgs u d ts md w = (Inr (), w')"
  shows "\<exists>j. JSON_stringify msgs = Some j \<and>
             find (\<lambda>r. chat_id r = i) (chats w') =
               Some (upserted (bound_row now i j u d ts md) (find (\<lambda>r. chat_id r = i) (chats w))) \<and>
             faults w' = tl (faults w) \<and> \<not> next_call_fails w"
proof -
  from assms obtain j where j: "JSON_stringify msgs = Some j"
    by (cases "JSON_stringify msgs") (auto simp: setMessages_def throw_def Let_def split: if_splits)
  let ?new = "bound_row now i j u d ts md"
  from assms j have run: "backend (D1_chats_upsert i)
          (\<lambda>w. case chats_upsert ?new (chats w) of Inl e \<Rightarrow> Inl e
               | Inr rows \<Rightarrow> Inr ((), w\<lparr>chats := rows\<rparr>)) w = (Inr (), w')"
    by (auto simp: setMessages_def throw_def Let_def bound_row_def split: if_splits)
  from backend_Inr [OF run] obtain w2 where
    w2: "(case chats_upsert ?new (chats w) of Inl e \<Rightarrow> Inl e
          | Inr rows \<Rightarrow> Inr ((), w\<lparr>faults := tl (faults w), chats := rows\<rparr>)) = Inr ((), w2)"
    and w': "w' = w2\<lparr>log := log w2 @ [(D1_chats_upsert i, None)]\<rparr>"
    and nf: "\<not> next_call_fails w"
    by auto
  from w2 obtain rows where rows: "chats_upsert ?new (chats w) = Inr rows"
    and "w2 = w\<lparr>faults := tl (faults w), chats := rows\<rparr>"
    by (auto split: sum.splits)
  then have "chats w' = rows" "faults w' = tl (faults w)"
    using w' by simp_all
  moreover from chats_upsert_row [OF rows]
  have "find (\<lambda>r. chat_id r = i) rows = Some (upserted ?new (find (\<lambda>r. chat_id r = i) (chats w)))"
    by (simp add: bound_row_def)
  ultimately show ?thesis
    using j nf by simp
qed

lemma truthy_stringify: "truthy md \<Longrightarrow> JSON_stringify md \<noteq> None"
  by (cases md) auto

text \<open>
  Claim C5. When \<open>setMessages\<close> succeeds twice on the same id, the row of that id holds
  afterwards the messages and the timestamp of the second call, whatever the first call
  wrote; and its urlId (description, metadata) is the one of the first call when the first
  call gave one and the second call gave \<open>null\<close> (for the metadata: any value that fails
  the test \<open>metadata ? ... : null\<close>, as \<open>null\<close> and \<open>undefined\<close> do).
\<close>

theorem setMessages_coalesce:
  assumes first: "setMessages P now1 i m1 u1 d1 t1 md1 w0 = (Inr (), w1)"
      and second: "setMessages P now2 i m2 u2 d2 t2 md2 w1 = (Inr (), w2)"
  shows "\<exists>r j2. find (\<lambda>r. chat_id r = i) (chats w2) = Some r \<and>
           JSON_stringify m2 = Some j2 \<and> messages r = j2 \<and>
           timestamp r = (case t2 of None \<Rightarrow> now2 | Some t \<Rightarrow> t) \<and>
           (u1 \<noteq> None \<and> u2 = None \<longrightarrow> urlId r = u1) \<and>
           (d1 \<noteq> None \<and> d2 = None \<longrightarrow> description r = d1) \<and>
           (truthy md1 \<and> \<not> truthy md2 \<longrightarrow> metadata r = JSON_stringify md1 \<and> metadata r \<noteq> None)"
proof -
  from setMessages_Inr [OF first] obtain j1 where
    r1: "find (\<lambda>r. chat_id r = i) (chats w1) =
           Some (upserted (bound_row now1 i j1 u1 d1 t1 md1) (find (\<lambda>r. chat_id r = i) (chats w0)))"
    by blast
  let ?r1 = "upserted (bound_row now1 i j1 u1 d1 t1 md1) (find (\<lambda>r. chat_id r = i) (chats w0))"
  from setMessages_Inr [OF second] r1 obtain j2 where
    j2: "JSON_stringify m2 = Some j2"
    and r2: "find (\<lambda>r. chat_id r = i) (chats w2) =
               Some (upserted (bound_row now2 i j2 u2 d2 t2 md2) (Some ?r1))"
    by auto
  let ?r2 = "upserted (bound_row now2 i j2 u2 d2 t2 md2) (Some ?r1)"
  have "messages ?r2 = j2"
    by (simp add: bound_row_def)
  moreover have "timestamp ?r2 = (case t2 of None \<Rightarrow> now2 | Some t \<Rightarrow> t)"
    by (simp add: bound_row_def)
  moreover have "u1 \<noteq> None \<and> u2 = None \<longrightarrow> urlId ?r2 = u1"
    by (auto simp: upserted_urlId bound_row_def)
  moreover have "d1 \<noteq> None \<and> d2 = None \<longrightarrow> description ?r2 = d1"
    by (auto simp: upserted_description bound_row_def)
  moreover have "truthy md1 \<and> \<not> truthy md2 \<longrightarrow>
                 metadata ?r2 = JSON_stringify md1 \<and> metadata ?r2 \<noteq> None"
    using truthy_stringify [of md1] by (auto simp: upserted_metadata bound_row_def)
  ultimately show ?thesis
    using r2 j2 by blast
qed

theorem setMessages_coalesce_witness:
  "fst (setMessages (\<lambda>t. False) ''2024-01-01T00:00:00.000Z'' ''1'' (JArray [JString ''a''])
          (Some ''one'') (Some ''demo'') None (JObject [(''gitUrl'', JString ''g'')])
          (world_with_chats [])) = Inr () \<and>
   fst (setMessages (\<lambda>t. False) ''2024-01-02T00:00:00.000Z'' ''1'' (JArray [JString ''b'']) None None None JNull
          (snd (setMessages (\<lambda>t. False) ''2024-01-01T00:00:00.000Z'' ''1'' (JArray [JString ''a''])
                  (Some ''one'') (Some ''demo'') None (JObject [(''gitUrl'', JString ''g'')])
                  (world_with_chats [])))) = Inr () \<and>
   map (\<lambda>r. (chat_id r, urlId r, description r, metadata r, messages r, timestamp r))
     (chats (snd (setMessages (\<lambda>t. False) ''2024-01-02T00:00:00.000Z'' ''1'' (JArray [JString ''b''])
        None None None JNull
        (snd (setMessages (\<lambda>t. False) ''2024-01-01T00:00:00.000Z'' ''1'' (JArray [JString ''a''])
                (Some ''one'') (Some ''demo'') None (JObject [(''gitUrl'', JString ''g'')])
                (world_with_chats []))))))
     = [(''1'', Some ''one'', Some ''demo'', Some (JsonObject [(''gitUrl'', JsonString ''g'')]),
         JsonArray [JsonString ''b''], ''2024-01-02T00:00:00.000Z'')]"
  using setMessages_coalesce
    [of "\<lambda>t. False" "''2024-01-01T00:00:00.000Z''" "''1''" "JArray [JString ''a'']"
        "Some ''one''" "Some ''demo''" None "JObject [(''gitUrl'', JString ''g'')]"
        "world_with_chats []"
        "snd (setMessages (\<lambda>t. False) ''2024-01-01T00:00:00.000Z'' ''1'' (JArray [JString ''a''])
                (Some ''one'') (Some ''demo'') None (JObject [(''gitUrl'', JString ''g'')])
                (world_with_chats []))"
        "''2024-01-02T00:00:00.000Z''" "JArray [JString ''b'']" None None None JNull
        "snd (setMessages (\<lambda>t. False) ''2024-01-02T00:00:00.000Z'' ''1'' (JArray [JString ''b''])
        None None None JNull
        (snd (setMessages (\<lambda>t. False) ''2024-01-01T00:00:00.000Z'' ''1'' (JArray [JString ''a''])
                (Some ''one'') (Some ''demo'') None (JObject [(''gitUrl'', JString ''g'')])
                (world_with_chats []))))"]
  by (simp add: setMessages_def backend_def chats_upsert_def urlId_taken_def
      chats_conflict_update_def COALESCE_def Let_def throw_def world_with_chats_def)

lemma json_plain_roundtrip:
  "json_plain v \<Longrightarrow> \<exists>j. JSON_stringify v = Some j \<and> JSON_parse j = v"
proof (induction v)
  case (JNumber n)
  then show ?case by (cases n) auto
next
  case (JArray xs)
  have "map (JSON_parse \<circ> (\<lambda>x. case JSON_stringify x of None \<Rightarrow> JsonNull | Some j \<Rightarrow> j)) xs = xs"
  proof (rule map_idI)
    fix x assume x: "x \<in> set xs"
    with JArray.prems have "json_plain x" by (simp add: list_all_iff)
    from JArray.IH [OF x this] show "(JSON_parse \<circ> (\<lambda>x. case JSON_stringify x of None \<Rightarrow> JsonNull | Some j \<Rightarrow> j)) x = x"
      by auto
  qed
  then show ?case by simp
next
  case (JObject kvs)
  have "map (\<lambda>(k, j). (k, JSON_parse j))
          (concat (map (\<lambda>(k, v). case JSON_stringify v of None \<Rightarrow> [] | Some j \<Rightarrow> [(k, j)]) kvs)) = kvs"
    using JObject
  proof (induction kvs)
    case Nil
    then show ?case by simp
  next
    case (Cons kv kvs)
    obtain k v where kv: "kv = (k, v)" by (cases kv)
    from Cons.prems(2) kv have "json_plain v" by simp
    moreover have "v \<in> Basic_BNFs.snds kv" using kv by simp
    ultimately obtain j where "JSON_stringify v = Some j" "JSON_parse j = v"
      using Cons.prems(1) [of kv v] by auto
    moreover have "map (\<lambda>(k, j). (k, JSON_parse j))
          (concat (map (\<lambda>(k, v). case JSON_stringify v of None \<Rightarrow> [] | Some j \<Rightarrow> [(k, j)]) kvs)) = kvs"
      using Cons.prems by (intro Cons.IH) auto
    ultimately show ?case using kv by simp
  qed
  then show ?case by simp
qed auto

lemma find_filter: "find P xs = Some r \<Longrightarrow> \<exists>rest. filter P xs = r # rest"
  by (induction xs) (auto split: if_splits)

lemma getMessagesById_found:
  assumes "\<not> next_call_fails w" and "find (\<lambda>r. chat_id r = i) (chats w) = Some r"
  shows "getMessagesById i w =
           (Inr (Some (row_to_item r)),
            w\<lparr>faults := tl (faults w), log := log w @ [(D1_chats_select_by_id i, None)]\<rparr>)"
proof -
  from find_filter [OF assms(2)] obtain rest where "filter (\<lambda>r. chat_id r = i) (chats w) = r # rest"
    by blast
  then show ?thesis
    using assms(1) by (simp add: getMessagesById_def await_def return_def backend_ok)
qed

lemma getMessages_found:
  assumes "\<not> next_call_fails w" and "find (\<lambda>r. chat_id r = i) (chats w) = Some r"
  shows "getMessages i w =
           (Inr (Some (row_to_item r)),
            w\<lparr>faults := tl (faults w), log := log w @ [(D1_chats_select_by_id i, None)]\<rparr>)"
  using getMessagesById_found [OF assms] by (simp add: getMessages_def await_def return_def)

text \<open>
  Claim C6, as amended. After a successful \<open>setMessages(i, M, ...)\<close>, \<open>getMessages(i)\<close>
  (when its query does not fail) returns a record whose messages are what \<open>JSON.parse\<close>
  reads from \<open>JSON.stringify(M)\<close>; they equal \<open>M\<close> exactly when every message is made
  of values JSON has a notation for (no \<open>undefined\<close>, no date, no non-finite number).
\<close>

theorem getMessages_after_setMessages:
  assumes set: "setMessages P now i (JArray M) u d ts md w = (Inr (), w1)"
      and get: "\<not> next_call_fails w1"
  shows "\<exists>c w2 j. getMessages i w1 = (Inr (Some c), w2) \<and>
           JSON_stringify (JArray M) = Some j \<and> item_messages c = JSON_parse j \<and>
           (list_all json_plain M \<longrightarrow> item_messages c = JArray M)"
proof -
  from setMessages_Inr [OF set] obtain j where
    j: "JSON_stringify (JArray M) = Some j"
    and row: "find (\<lambda>r. chat_id r = i) (chats w1) =
                Some (upserted (bound_row now i j u d ts md) (find (\<lambda>r. chat_id r = i) (chats w)))"
    by blast
  let ?r = "upserted (bound_row now i j u d ts md) (find (\<lambda>r. chat_id r = i) (chats w))"
  have msgs: "item_messages (row_to_item ?r) = JSON_parse j"
    by (simp add: row_to_item_def bound_row_def)
  have "list_all json_plain M \<longrightarrow> JSON_parse j = JArray M"
  proof
    assume "list_all json_plain M"
    then have "json_plain (JArray M)" by simp
    from json_plain_roundtrip [OF this] j show "JSON_parse j = JArray M" by auto
  qed
  with getMessages_found [OF get row] j msgs show ?thesis
    by auto
qed

lemmas run_setMessages_simps =
  setMessages_def backend_def chats_upsert_def urlId_taken_def chats_conflict_update_def
  COALESCE_def Let_def throw_def world_with_chats_def

lemmas run_getMessages_simps =
  getMessages_def getMessagesById_def getMessagesByUrlId_def await_def return_def backend_def
  row_to_item_def Let_def

theorem getMessages_after_setMessages_witness:
  "fst (setMessages (\<lambda>t. False) ''2024-01-01T00:00:00.000Z'' ''1'' (JArray [plain_message])
          (Some ''1'') (Some ''demo'') None JUndefined (world_with_chats [])) = Inr () \<and>
   \<not> next_call_fails (snd (setMessages (\<lambda>t. False) ''2024-01-01T00:00:00.000Z'' ''1''
          (JArray [plain_message]) (Some ''1'') (Some ''demo'') None JUndefined (world_with_chats []))) \<and>
   list_all json_plain [plain_message] \<and>
   map_option item_messages (projr (fst (getMessages ''1''
     (snd (setMessages (\<lambda>t. False) ''2024-01-01T00:00:00.000Z'' ''1''
          (JArray [plain_message]) (Some ''1'') (Some ''demo'') None JUndefined (world_with_chats []))))))
     = Some (JArray [plain_message])"
  using getMessages_after_setMessages
    [of "\<lambda>t. False" "''2024-01-01T00:00:00.000Z''" "''1''" "[plain_message]"
        "Some ''1''" "Some ''demo''" None JUndefined "world_with_chats []"
        "snd (setMessages (\<lambda>t. False) ''2024-01-01T00:00:00.000Z'' ''1''
          (JArray [plain_message]) (Some ''1'') (Some ''demo'') None JUndefined (world_with_chats []))"]
  by (simp add: run_setMessages_simps run_getMessages_simps plain_message_def next_call_fails_def)

text \<open>
  The claim as stated, for every message sequence, fails on a message that carries a date
  (the \<open>createdAt\<close> of a chat message): the date is stored as a string and read back as
  a string.
\<close>

lemma dated_message_stored:
  "setMessages (\<lambda>t. False) ''2024-01-01T00:00:00.000Z'' ''1'' (JArray [dated_message])
     (Some ''1'') (Some ''demo'') None JUndefined (world_with_chats []) =
   (Inr (),
    \<lparr>bucket = [],
     chats = [\<lparr>chat_id = ''1'', urlId = Some ''1'',
               messages = JsonArray [JsonObject [(''id'', JsonString ''m1''), (''role'', JsonString ''user''),
                             (''content'', JsonString ''hi''),
                             (''createdAt'', JsonString ''2024-01-01T00:00:00.000Z'')]],
               description = Some ''demo'', timestamp = ''2024-01-01T00:00:00.000Z'',
               metadata = None\<rparr>],
     files = [], faults = [], log = [(D1_chats_upsert ''1'', None)]\<rparr>)"
  by (simp add: run_setMessages_simps dated_message_def)

lemma dated_message_read:
  "map_option item_messages (projr (fst (getMessages ''1''
    \<lparr>bucket = [],
     chats = [\<lparr>chat_id = ''1'', urlId = Some ''1'',
               messages = JsonArray [JsonObject [(''id'', JsonString ''m1''), (''role'', JsonString ''user''),
                             (''content'', JsonString ''hi''),
                             (''createdAt'', JsonString ''2024-01-01T00:00:00.000Z'')]],
               description = Some ''demo'', timestamp = ''2024-01-01T00:00:00.000Z'',
               metadata = None\<rparr>],
     files = [], faults = [], log = [(D1_chats_upsert ''1'', None)]\<rparr>))) =
   Some (JArray [JObject [(''id'', JString ''m1''), (''role'', JString ''user''),
                          (''content'', JString ''hi''),
                          (''createdAt'', JString ''2024-01-01T00:00:00.000Z'')]])"
  by (simp add: run_getMessages_simps)

theorem getMessages_roundtrip_counterexample:
  "\<not> (\<forall>P now i M u d ts md w w1.
        setMessages P now i (JArray M) u d ts md w = (Inr (), w1) \<and> \<not> next_call_fails w1 \<longrightarrow>
        (\<exists>c w2. getMessages i w1 = (Inr (Some c), w2) \<and> item_messages c = JArray M))"
proof
  assume "\<forall>P now i M u d ts md w w1.
        setMessages P now i (JArray M) u d ts md w = (Inr (), w1) \<and> \<not> next_call_fails w1 \<longrightarrow>
        (\<exists>c w2. getMessages i w1 = (Inr (Some c), w2) \<and> item_messages c = JArray M)"
  from this [rule_format, OF conjI, OF dated_message_stored]
  obtain c w2 where
    "getMessages ''1''
      \<lparr>bucket = [],
       chats = [\<lparr>chat_id = ''1'', urlId = Some ''1'',
               messages = JsonArray [JsonObject [(''id'', JsonString ''m1''), (''role'', JsonString ''user''),
                             (''content'', JsonString ''hi''),
                             (''createdAt'', JsonString ''2024-01-01T00:00:00.000Z'')]],
               description = Some ''demo'', timestamp = ''2024-01-01T00:00:00.000Z'',
               metadata = None\<rparr>],
       files = [], faults = [], log = [(D1_chats_upsert ''1'', None)]\<rparr> = (Inr (Some c), w2)"
    and "item_messages c = JArray [dated_message]"
    by (auto simp: next_call_fails_def)
  with dated_message_read
  have "Some (JArray [JObject [(''id'', JString ''m1''), (''role'', JString ''user''),
                          (''content'', JString ''hi''),
                          (''createdAt'', JString ''2024-01-01T00:00:00.000Z'')]])
        = Some (JArray [dated_message])"
    by simp
  then show False
    by (simp add: dated_message_def)
qed

subsection \<open>\<open>forkChat\<close> and \<open>duplicateChat\<close>\<close>

lemma createChatFromMessages_Inr:
  assumes "createChatFromMessages P now descr msgs md w = (Inr i, w')"
  shows "\<exists>r. find (\<lambda>r. chat_id r = i) (chats w') = Some r \<and> description r = Some descr"
proof -
  from assms obtain i1 w1 where "getNextId w = (Inr i1, w1)"
    and rest1: "await (getUrlId i1)
                  (\<lambda>u. await (setMessages P now i1 msgs (Some u) (Some descr) None md)
                     (\<lambda>_. return i1)) w1 = (Inr i, w')"
    unfolding createChatFromMessages_def by (drule_tac await_Inr) blast
  from await_Inr [OF rest1] obtain u w2 where "getUrlId i1 w1 = (Inr u, w2)"
    and rest2: "await (setMessages P now i1 msgs (Some u) (Some descr) None md)
                  (\<lambda>_. return i1) w2 = (Inr i, w')"
    by blast
  from await_Inr [OF rest2] obtain w3 where
    set: "setMessages P now i1 msgs (Some u) (Some descr) None md w2 = (Inr (), w3)"
    and ret: "return i1 w3 = (Inr i, w')"
    by auto
  from ret have "i = i1" "w' = w3"
    by (simp_all add: return_def)
  with setMessages_Inr [OF set] show ?thesis
    by (auto simp: upserted_description bound_row_def)
qed

text \<open>
  Claim C10. When \<open>forkChat\<close> (\<open>duplicateChat\<close>) succeeds, the row of the id it returns
  has the description \<open>Forked chat\<close> (\<open>Duplicated chat\<close>) if the description of the
  source chat is \<open>null\<close> or empty, and the source description followed by \<open> (fork)\<close>
  (\<open> (copy)\<close>) only if the source description is a non-empty string.
\<close>

theorem fork_duplicate_description:
  "(forkChat P now chatId messageId w = (Inr newId, w') \<longrightarrow>
      (\<exists>c w1 r. getMessages chatId w = (Inr (Some c), w1) \<and>
         find (\<lambda>r. chat_id r = newId) (chats w') = Some r \<and>
         (item_description c = None \<or> item_description c = Some [] \<longrightarrow>
            description r = Some ''Forked chat'') \<and>
         (\<forall>d. item_description c = Some d \<and> d \<noteq> [] \<longrightarrow> description r = Some (d @ '' (fork)'')))) \<and>
   (duplicateChat P now chatId w = (Inr newId, w') \<longrightarrow>
      (\<exists>c w1 r. getMessages chatId w = (Inr (Some c), w1) \<and>
         find (\<lambda>r. chat_id r = newId) (chats w') = Some r \<and>
         (item_description c = None \<or> item_description c = Some [] \<longrightarrow>
            description r = Some ''Duplicated chat'') \<and>
         (\<forall>d. item_description c = Some d \<and> d \<noteq> [] \<longrightarrow> description r = Some (d @ '' (copy)''))))"
proof (intro conjI impI)
  assume fork: "forkChat P now chatId messageId w = (Inr newId, w')"
  let ?descr = "\<lambda>c. case item_description c of None \<Rightarrow> ''Forked chat''
                     | Some d \<Rightarrow> if d \<noteq> [] then d @ '' (fork)'' else ''Forked chat''"
  from fork obtain chat w1 where get: "getMessages chatId w = (Inr chat, w1)"
    and rest: "(case chat of
          None \<Rightarrow> throw (Error ''Chat not found'')
        | Some c \<Rightarrow>
            (case item_messages c of
               JArray ms \<Rightarrow>
                 (case findIndex_id messageId ms of
                    Inl e \<Rightarrow> throw e
                  | Inr None \<Rightarrow> throw (Error ''Message not found'')
                  | Inr (Some messageIndex) \<Rightarrow>
                      createChatFromMessages P now (?descr c)
                        (JArray (take (messageIndex + 1) ms)) JUndefined)
             | _ \<Rightarrow> throw (TypeError ''chat.messages.findIndex is not a function''))) w1 = (Inr newId, w')"
    unfolding forkChat_def by (drule_tac await_Inr) blast
  from rest obtain c where c: "chat = Some c"
    by (cases chat) (auto simp: throw_def)
  from rest c obtain ms k where
    "createChatFromMessages P now (?descr c) (JArray (take (k + 1) ms)) JUndefined w1 = (Inr newId, w')"
    by (auto simp: throw_def split: jsval.splits sum.splits option.splits)
  from createChatFromMessages_Inr [OF this] obtain r where
    r: "find (\<lambda>r. chat_id r = newId) (chats w') = Some r" "description r = Some (?descr c)"
    by blast
  show "\<exists>c w1 r. getMessages chatId w = (Inr (Some c), w1) \<and>
         find (\<lambda>r. chat_id r = newId) (chats w') = Some r \<and>
         (item_description c = None \<or> item_description c = Some [] \<longrightarrow>
            description r = Some ''Forked chat'') \<and>
         (\<forall>d. item_description c = Some d \<and> d \<noteq> [] \<longrightarrow> description r = Some (d @ '' (fork)''))"
    using get c r by (intro exI [of _ c] exI [of _ w1] exI [of _ r]) auto
next
  assume dup: "duplicateChat P now chatId w = (Inr newId, w')"
  let ?descr = "\<lambda>c. case item_description c of None \<Rightarrow> ''Duplicated chat''
                     | Some d \<Rightarrow> if d \<noteq> [] then d @ '' (copy)'' else ''Duplicated chat''"
  from dup obtain chat w1 where get: "getMessages chatId w = (Inr chat, w1)"
    and rest: "(case chat of
          None \<Rightarrow> throw (Error ''Chat not found'')
        | Some c \<Rightarrow> createChatFromMessages P now (?descr c) (item_messages c) (item_metadata c)) w1
        = (Inr newId, w')"
    unfolding duplicateChat_def by (drule_tac await_Inr) blast
  from rest obtain c where c: "chat = Some c"
    by (cases chat) (auto simp: throw_def)
  with rest have
    "createChatFromMessages P now (?descr c) (item_messages c) (item_metadata c) w1 = (Inr newId, w')"
    by simp
  from createChatFromMessages_Inr [OF this] obtain r where
    r: "find (\<lambda>r. chat_id r = newId) (chats w') = Some r" "description r = Some (?descr c)"
    by blast
  show "\<exists>c w1 r. getMessages chatId w = (Inr (Some c), w1) \<and>
         find (\<lambda>r. chat_id r = newId) (chats w') = Some r \<and>
         (item_description c = None \<or> item_description c = Some [] \<longrightarrow>
            description r = Some ''Duplicated chat'') \<and>
         (\<forall>d. item_description c = Some d \<and> d \<noteq> [] \<longrightarrow> description r = Some (d @ '' (copy)''))"
    using get c r by (intro exI [of _ c] exI [of _ w1] exI [of _ r]) auto
qed

lemmas run_getNextId_simps =
  getNextId_def select_max_id_def sqlite_cast_integer_def is_space_def is_digit_def
  digits_value_def digit_value_def int64_clamp_def to_Number_def to_double_def
  Number_toString_def shortest_decimal_def decimal.simps digit_char_def

lemmas run_getUrlId_simps =
  getUrlId_def getUrlIds_def select_urlIds_def getUrlId_loop.simps

theorem fork_duplicate_description_witness:
  "fst (forkChat (\<lambda>t. False) ''2024-02-02T00:00:00.000Z'' ''1'' ''m1''
          (world_with_chats [chat_described ''1'' None])) = Inr ''2'' \<and>
   map (\<lambda>r. (chat_id r, description r))
     (chats (snd (forkChat (\<lambda>t. False) ''2024-02-02T00:00:00.000Z'' ''1'' ''m1''
          (world_with_chats [chat_described ''1'' None]))))
     = [(''1'', None), (''2'', Some ''Forked chat'')] \<and>
   fst (duplicateChat (\<lambda>t. False) ''2024-02-02T00:00:00.000Z'' ''1''
          (world_with_chats [chat_described ''1'' (Some ''demo'')])) = Inr ''2'' \<and>
   map (\<lambda>r. (chat_id r, description r))
     (chats (snd (duplicateChat (\<lambda>t. False) ''2024-02-02T00:00:00.000Z'' ''1''
          (world_with_chats [chat_described ''1'' (Some ''demo'')]))))
     = [(''1'', Some ''demo''), (''2'', Some ''demo (copy)'')]"
  using fork_duplicate_description
    [of "\<lambda>t. False" "''2024-02-02T00:00:00.000Z''" "''1''" "''m1''"
        "world_with_chats [chat_described ''1'' None]" "''2''"
        "snd (forkChat (\<lambda>t. False) ''2024-02-02T00:00:00.000Z'' ''1'' ''m1''
          (world_with_chats [chat_described ''1'' None]))"]
    fork_duplicate_description
    [of "\<lambda>t. False" "''2024-02-02T00:00:00.000Z''" "''1''" "''m1''"
        "world_with_chats [chat_described ''1'' (Some ''demo'')]" "''2''"
        "snd (duplicateChat (\<lambda>t. False) ''2024-02-02T00:00:00.000Z'' ''1''
          (world_with_chats [chat_described ''1'' (Some ''demo'')]))"]
  by (simp add: forkChat_def duplicateChat_def createChatFromMessages_def run_getMessages_simps
      run_setMessages_simps run_getNextId_simps run_getUrlId_simps chat_described_def)

subsection \<open>The file manager\<close>

lemma next_call_failsE:
  assumes "next_call_fails w"
  obtains n fs where "faults w = Some n # fs"
  using assms by (auto simp: next_call_fails_def split: list.splits option.splits)

lemma backend_rejected:
  "\<not> next_call_fails w \<Longrightarrow> sem (w\<lparr>faults := tl (faults w)\<rparr>) = Inl e \<Longrightarrow>
   backend c sem w = (Inl e, w\<lparr>faults := tl (faults w), log := log w @ [(c, Some e)]\<rparr>)"
  by (auto simp: backend_def next_call_fails_def Let_def split: list.splits option.splits)

lemma backend_log:
  assumes "keeps_log sem"
  shows "\<exists>r w' out. backend c sem w = (r, w') \<and> log w' = log w @ [(c, out)] \<and>
           (case out of None \<Rightarrow> (\<exists>x. r = Inr x) | Some e \<Rightarrow> r = Inl e)"
proof (cases "next_call_fails w")
  case True
  then obtain n fs where "faults w = Some n # fs" by (rule next_call_failsE)
  from backend_fault [OF this, of c sem] show ?thesis by auto
next
  case False
  show ?thesis
  proof (cases "sem (w\<lparr>faults := tl (faults w)\<rparr>)")
    case (Inl e)
    have "backend c sem w = (Inl e, w\<lparr>faults := tl (faults w), log := log w @ [(c, Some e)]\<rparr>)"
      using False Inl by (rule backend_rejected)
    then show ?thesis by auto
  next
    case (Inr p)
    obtain x w2 where p: "p = (x, w2)" by (cases p)
    from assms Inr p have "log w2 = log w" by (auto simp: keeps_log_def)
    moreover have "backend c sem w = (Inr x, w2\<lparr>log := log w2 @ [(c, None)]\<rparr>)"
      using False Inr p by (intro backend_ok) simp_all
    ultimately show ?thesis by auto
  qed
qed

lemma Storage_storeFile_fault:
  "faults w = Some n # fs \<Longrightarrow>
   Storage_storeFile this key d md w =
     (Inl (BackendError n),
      w\<lparr>faults := fs, log := log w @ [(R2_put (getFullKey this key), Some (BackendError n))]\<rparr>)"
  by (simp add: Storage_storeFile_def Let_def await_def backend_fault)

lemma Storage_storeFile_ok:
  "\<not> next_call_fails w \<Longrightarrow>
   Storage_storeFile this key d md w =
     (Inr (getFullKey this key),
      w\<lparr>faults := tl (faults w),
        bucket := assoc_set (getFullKey this key)
                    \<lparr>body = body_bytes d, customMetadata = (case md of None \<Rightarrow> [] | Some m \<Rightarrow> m)\<rparr>
                    (bucket w),
        log := log w @ [(R2_put (getFullKey this key), None)]\<rparr>)"
  by (simp add: Storage_storeFile_def Let_def await_def return_def backend_ok bucket_put_def)

lemma files_insert_keeps_log: "keeps_log (files_insert row)"
  by (auto simp: keeps_log_def files_insert_def split: if_splits)

text \<open>
  Claim C1. \<open>FileManager.storeFile\<close> calls the bucket first. If that call throws, the
  error is what \<open>storeFile\<close> throws, the \<open>files\<close> table is unchanged and no statement
  was sent to the database. If it does not throw, the only other call is the
  \<open>INSERT INTO files\<close>, made after it.
\<close>

theorem storeFile_blob_before_row:
  "\<exists>r w'. FileManager_storeFile this uuid now fileData path chatId contentType md w = (r, w') \<and>
     (if next_call_fails w
      then (\<exists>e. r = Inl e \<and> files w' = files w \<and>
                log w' = log w @ [(R2_put (getFullKey (storage this) uuid), Some e)])
      else (\<exists>out. log w' = log w @ [(R2_put (getFullKey (storage this) uuid), None),
                                     (D1_files_insert uuid, out)]))"
proof (cases "next_call_fails w")
  case True
  then obtain n fs where "faults w = Some n # fs" by (rule next_call_failsE)
  then show ?thesis
    using True by (simp add: FileManager_storeFile_def Let_def await_def Storage_storeFile_fault)
next
  case False
  let ?w1 = "w\<lparr>faults := tl (faults w),
        bucket := assoc_set (getFullKey (storage this) uuid)
                    \<lparr>body = body_bytes fileData,
                     customMetadata = assoc_set ''chatId'' chatId
                          (assoc_set ''contentType'' contentType
                            (assoc_set ''path'' (Some path)
                              (case md of None \<Rightarrow> [] | Some m \<Rightarrow> map (\<lambda>(k, v). (k, Some v)) m)))\<rparr>
                    (bucket w),
        log := log w @ [(R2_put (getFullKey (storage this) uuid), None)]\<rparr>"
  let ?row = "\<lparr>file_id = uuid, file_chatId = or_null chatId, file_path = path,
               file_contentType = or_null contentType,
               file_size = (case fileData of Text s \<Rightarrow> length (TextEncoder_encode s)
                            | ArrayBuffer b \<Rightarrow> length b | Uint8Array b \<Rightarrow> length b),
               file_timestamp = now,
               file_metadata = (case md of None \<Rightarrow> None
                                | Some m \<Rightarrow> Some (JsonObject (map (\<lambda>(k, v). (k, JsonString v)) m)))\<rparr>"
  have run: "FileManager_storeFile this uuid now fileData path chatId contentType md w =
          await (backend (D1_files_insert uuid) (files_insert ?row)) (\<lambda>_. return uuid) ?w1"
    using False by (simp add: FileManager_storeFile_def Let_def await_def Storage_storeFile_ok)
  from backend_log [OF files_insert_keeps_log [of ?row], of "D1_files_insert uuid" ?w1]
  obtain r1 w2 out where b: "backend (D1_files_insert uuid) (files_insert ?row) ?w1 = (r1, w2)"
    and l: "log w2 = log ?w1 @ [(D1_files_insert uuid, out)]"
    by blast
  have "\<exists>r w'. await (backend (D1_files_insert uuid) (files_insert ?row)) (\<lambda>_. return uuid) ?w1 = (r, w')
          \<and> log w' = log w2"
    using b by (cases r1) (simp_all add: await_def return_def)
  with run l False show ?thesis
    by auto
qed

theorem storeFile_blob_before_row_witness:
  "next_call_fails (empty_world\<lparr>faults := [Some 7]\<rparr>) \<and>
   fst (FileManager_storeFile root_manager ''id-1'' ''2024-01-01T00:00:00.000Z'' (Uint8Array [1, 2, 3])
          ''a.bin'' None None None (empty_world\<lparr>faults := [Some 7]\<rparr>)) = Inl (BackendError 7) \<and>
   files (snd (FileManager_storeFile root_manager ''id-1'' ''2024-01-01T00:00:00.000Z''
                 (Uint8Array [1, 2, 3]) ''a.bin'' None None None (empty_world\<lparr>faults := [Some 7]\<rparr>)))
     = [] \<and>
   log (snd (FileManager_storeFile root_manager ''id-1'' ''2024-01-01T00:00:00.000Z''
                 (Uint8Array [1, 2, 3]) ''a.bin'' None None None (empty_world\<lparr>faults := [Some 7]\<rparr>)))
     = [(R2_put ''id-1'', Some (BackendError 7))] \<and>
   \<not> next_call_fails empty_world \<and>
   log (snd (FileManager_storeFile root_manager ''id-1'' ''2024-01-01T00:00:00.000Z''
               (Uint8Array [1, 2, 3]) ''a.bin'' None None None empty_world)) =
     [(R2_put ''id-1'', None), (D1_files_insert ''id-1'', None)]"
  using storeFile_blob_before_row
    [of root_manager "''id-1''" "''2024-01-01T00:00:00.000Z''" "Uint8Array [1, 2, 3]" "''a.bin''"
        None None None "empty_world\<lparr>faults := [Some 7]\<rparr>"]
    storeFile_blob_before_row
    [of root_manager "''id-1''" "''2024-01-01T00:00:00.000Z''" "Uint8Array [1, 2, 3]" "''a.bin''"
        None None None empty_world]
  by (simp add: FileManager_storeFile_def Storage_storeFile_def getFullKey_def root_manager_def
      empty_world_def next_call_fails_def await_def return_def backend_def bucket_put_def
      assoc_set_def files_insert_def or_null_def body_bytes_def Let_def)











lemma encode_example: "TextEncoder_encode [0xE9, 0x61] = [0xC3, 0xA9, 0x61]"
  by (simp add: high_surrogate_def low_surrogate_def utf8_code_point_def)


subsection \<open>The object store\<close>






lemma startsWith_append [simp]: "startsWith (p @ t) p"
  by (simp add: startsWith_def)

lemma startsWith_Nil [simp]: "startsWith s []"
  by (simp add: startsWith_def)

lemma replace_first_Nil [simp]: "replace_first s [] = s"
  by (cases s) simp_all


















lemma keeps_log_bucket [simp]:
  "keeps_log (bucket_put k b m)" "keeps_log (bucket_get k)" "keeps_log (bucket_delete k)"
  "keeps_log (bucket_list p limit)"
  by (auto simp: keeps_log_def bucket_put_def bucket_get_def bucket_delete_def bucket_list_def)

lemma keeps_log_files [simp]:
  "keeps_log (files_insert row)" "keeps_log (files_delete i)" "keeps_log (files_select_by_id i)"
  by (auto simp: keeps_log_def files_insert_def files_delete_def files_select_by_id_def
      split: if_splits)

lemma keeps_log_query [simp]: "keeps_log (\<lambda>w. Inr (q w, w))"
  by (simp add: keeps_log_def)

lemma keeps_log_upsert [simp]:
  "keeps_log (\<lambda>w. case chats_upsert row (chats w) of Inl e \<Rightarrow> Inl e
                 | Inr rows \<Rightarrow> Inr ((), w\<lparr>chats := rows\<rparr>))"
  by (auto simp: keeps_log_def split: sum.splits)














end
